theory Spec2Isabelle
  imports
    Complex_Main
    "HOL-Library.Char_ord"
    "HOL-Library.List_Lexorder"
    "HOL-Library.AList"
    "HOL-Library.Sublist"
    "HOL-Library.Multiset"
begin

section \<open>Data model (src/types.ts)\<close>

text \<open>
  The interfaces of \<^verbatim>\<open>types.ts\<close> become records. A JavaScript \<^verbatim>\<open>number\<close> that holds
  money is modelled as an exact rational (\<^typ>\<open>rat\<close>): the model does not round, so
  every statement about amounts below is a statement about the arithmetic the
  source writes down, not about IEEE rounding. A \<^verbatim>\<open>number\<close> produced by
  \<^verbatim>\<open>parseInt\<close> is an \<^typ>\<open>int\<close>. \<^verbatim>\<open>NaN\<close> and the infinities are not values of
  these types: where the source tests a parser's result for \<^verbatim>\<open>NaN\<close>, the model
  takes the result as an option. Field names follow the source; where two interfaces
  share a field name (\<^verbatim>\<open>id\<close>, \<^verbatim>\<open>name\<close>, \<^verbatim>\<open>date\<close>, ...) all but the receipt's carry a
  prefix naming their record.
\<close>

record professional =
  p_id :: string
  p_name :: string
  p_specialty :: string
  p_phone :: string
  percentage :: int
  p_createdAt :: string

record patient =
  pt_id :: string
  pt_name :: string
  pt_phone :: string
  pt_email :: "string option"
  pt_address :: "string option"
  pt_birthDate :: "string option"
  pt_createdAt :: string

record receipt =
  r_id :: string
  grossValue :: rat
  netClinic :: rat
  professionalValue :: rat
  professionalId :: string
  professionalName :: string
  serviceType :: string
  paymentMethod :: string
  date :: string

record expense =
  e_id :: string
  e_value :: rat
  e_category :: string
  e_description :: string
  e_paymentMethod :: string
  e_date :: string

record product =
  pr_id :: string
  pr_name :: string
  quantity :: int
  minQuantity :: int

record dailyConfig =
  c_date :: string
  initialCash :: rat

record serviceTypeEntry =
  nome :: string
  valor :: string

section \<open>Component state (src/components/Dashboard.tsx, lines 26-54)\<close>

record state =
  isLoaded :: bool
  currentDate :: string
  professionals :: "professional list"
  patients :: "patient list"
  receipts :: "receipt list"
  expenses :: "expense list"
  products :: "product list"
  dailyConfigs :: "dailyConfig list"
  serviceTypes :: "serviceTypeEntry list"
  selectedProfIndex :: "nat option"

definition defaultServiceTypes :: "serviceTypeEntry list" where
  "defaultServiceTypes =
     [\<lparr>nome = ''Consulta'', valor = ''consulta''\<rparr>,
      \<lparr>nome = ''Procedimento'', valor = ''procedimento''\<rparr>,
      \<lparr>nome = ''Retorno'', valor = ''retorno''\<rparr>,
      \<lparr>nome = ''Cirurgia'', valor = ''cirurgia''\<rparr>]"

text \<open>
  The values handed to \<^verbatim>\<open>useState\<close>: the state of the first render. \<open>today\<close> is
  what \<^verbatim>\<open>getTodayString()\<close> returned.
\<close>

definition initialState :: "string \<Rightarrow> state" where
  "initialState today =
     \<lparr>isLoaded = False, currentDate = today, professionals = [], patients = [],
      receipts = [], expenses = [], products = [], dailyConfigs = [],
      serviceTypes = defaultServiceTypes, selectedProfIndex = None\<rparr>"

text \<open>What the user is shown (\<^verbatim>\<open>alert\<close>) or what is logged (\<^verbatim>\<open>console.error\<close>).\<close>

datatype message =
    SelecioneProfissional  \<comment> \<open>\<^verbatim>\<open>"Selecione um profissional"\<close>\<close>
  | ValorInvalido          \<comment> \<open>\<^verbatim>\<open>"Valor invalido"\<close>\<close>
  | DadosInvalidos         \<comment> \<open>\<^verbatim>\<open>"Dados invalidos"\<close>\<close>
  | ErroAoImportar         \<comment> \<open>\<^verbatim>\<open>"Erro ao importar: Arquivo invalido."\<close>\<close>
  | ImportadoComSucesso    \<comment> \<open>\<^verbatim>\<open>"Dados importados com sucesso!"\<close>\<close>
  | DefinaRegime           \<comment> \<open>\<^verbatim>\<open>"Defina o regime de comissao."\<close>\<close>

datatype effect = Alert message | ConsoleError

section \<open>Commission split and receipt creation\<close>

text \<open>
  The submitted form, after the platform's parsers: \<^verbatim>\<open>parseInt\<close> of the select's
  value (the select offers the indices of the roster and an empty option, which
  parses to \<^verbatim>\<open>NaN\<close>, here \<open>None\<close>) and \<^verbatim>\<open>parseFloat\<close> of the amount (\<open>None\<close> is
  \<^verbatim>\<open>NaN\<close>).
\<close>

record receiptForm =
  f_professional :: "nat option"
  f_value :: "rat option"
  f_type :: string
  f_method :: string

text \<open>
  Line 176 of \<^verbatim>\<open>addReceipt\<close>, the same expression in every revision:
  \<^verbatim>\<open>prof.percentage === 100 ? 0 : gross * (prof.percentage / 100)\<close>.
\<close>

definition profValue :: "rat \<Rightarrow> int \<Rightarrow> rat" where
  "profValue gross pct = (if pct = 100 then 0 else gross * (of_int pct / 100))"

text \<open>\<^verbatim>\<open>String(n)\<close> for a non-negative integer, and \<^verbatim>\<open>.padStart(2, '0')\<close> of it.\<close>

definition digit_char :: "nat \<Rightarrow> char" where
  "digit_char n = ''0123456789'' ! n"

fun show_nat :: "nat \<Rightarrow> string" where
  "show_nat n = (if n < 10 then [digit_char n] else show_nat (n div 10) @ [digit_char (n mod 10)])"

declare show_nat.simps [simp del]

definition pad2 :: "nat \<Rightarrow> string" where
  "pad2 n = (let s = show_nat n in if length s < 2 then CHR ''0'' # s else s)"


text \<open>Lines 180-184: the local timestamp of a new receipt on the consulted day.\<close>

definition localFullDate :: "string \<Rightarrow> nat \<times> nat \<times> nat \<Rightarrow> string" where
  "localFullDate cur now =
     (case now of (h, mi, s) \<Rightarrow> cur @ ''T'' @ pad2 h @ '':'' @ pad2 mi @ '':'' @ pad2 s)"

text \<open>
  \<^verbatim>\<open>addReceipt\<close> (Dashboard.tsx, lines 166-200). \<open>newId\<close> is the result of
  \<^verbatim>\<open>generateId()\<close>, \<open>now\<close> the local hours, minutes and seconds of \<^verbatim>\<open>new Date()\<close>.
  The result is the next state and what was shown to the user.
\<close>

definition addReceipt :: "receiptForm \<Rightarrow> string \<Rightarrow> nat \<times> nat \<times> nat \<Rightarrow> state \<Rightarrow> state \<times> effect list" where
  "addReceipt form newId now st =
     (case f_professional form of
        None \<Rightarrow> (st, [Alert SelecioneProfissional])
      | Some profIndex \<Rightarrow>
          if \<not> profIndex < length (professionals st) then (st, [Alert SelecioneProfissional])
          else
            let prof = professionals st ! profIndex in
            (case f_value form of
               None \<Rightarrow> (st, [Alert ValorInvalido])
             | Some gross \<Rightarrow>
                 let pv = profValue gross (percentage prof);
                     nt = gross - pv;
                     newRec = \<lparr>r_id = newId, grossValue = gross, netClinic = nt,
                               professionalValue = pv, professionalId = p_id prof,
                               professionalName = p_name prof, serviceType = f_type form,
                               paymentMethod = f_method form,
                               date = localFullDate (currentDate st) now\<rparr>
                 in (st\<lparr>receipts := receipts st @ [newRec]\<rparr>, [])))"

text \<open>
  \<^verbatim>\<open>handleAddReceipt\<close> of the revision with storage key \<^verbatim>\<open>centro_medico_v102_stable\<close>
  (lines 83-111): one combined check, one message, and the timestamp taken from
  \<^verbatim>\<open>toTimeString()\<close>, which prints the same \<^verbatim>\<open>HH:MM:SS\<close>.
\<close>

definition handleAddReceipt :: "receiptForm \<Rightarrow> string \<Rightarrow> nat \<times> nat \<times> nat \<Rightarrow> state \<Rightarrow> state \<times> effect list" where
  "handleAddReceipt form newId now st =
     (case (f_professional form, f_value form) of
        (Some profIndex, Some gross) \<Rightarrow>
          if \<not> profIndex < length (professionals st) then (st, [Alert DadosInvalidos])
          else
            let prof = professionals st ! profIndex;
                pv = profValue gross (percentage prof);
                newRec = \<lparr>r_id = newId, grossValue = gross, netClinic = gross - pv,
                          professionalValue = pv, professionalId = p_id prof,
                          professionalName = p_name prof, serviceType = f_type form,
                          paymentMethod = f_method form,
                          date = localFullDate (currentDate st) now\<rparr>
            in (st\<lparr>receipts := receipts st @ [newRec]\<rparr>, [])
      | _ \<Rightarrow> (st, [Alert DadosInvalidos]))"



section \<open>Roster of professionals\<close>



text \<open>Line 791: the delete button of a professional's card, after \<^verbatim>\<open>confirm\<close>.\<close>

definition removeProfessional :: "string \<Rightarrow> bool \<Rightarrow> state \<Rightarrow> state" where
  "removeProfessional pid confirmed st =
     (if confirmed then st\<lparr>professionals := filter (\<lambda>p. p_id p \<noteq> pid) (professionals st)\<rparr>
      else st)"

section \<open>Persistence (lines 56-118)\<close>

text \<open>
  The object read back from storage or from an import file, as far as this code
  looks at it: seven properties. \<open>None\<close> is a property that is absent (or holds
  a falsy value); \<open>Some xs\<close> is a property holding an array of records of the
  declared interface. A property holding a truthy value of another shape is
  outside this typed model.
\<close>

record snapshot =
  d_professionals :: "professional list option"
  d_patients :: "patient list option"
  d_receipts :: "receipt list option"
  d_expenses :: "expense list option"
  d_products :: "product list option"
  d_dailyConfigs :: "dailyConfig list option"
  d_serviceTypes :: "serviceTypeEntry list option"

text \<open>
  The three outcomes of \<^verbatim>\<open>JSON.parse\<close> that this code tells apart: it throws
  (\<open>SyntaxError\<close>); it returns \<^verbatim>\<open>null\<close>, whose first property read throws a
  \<^verbatim>\<open>TypeError\<close>; it returns a value whose properties can be read. \<^verbatim>\<open>JSON.parse\<close>
  and \<^verbatim>\<open>JSON.stringify\<close> belong to the platform and are parameters of the model.
\<close>

datatype parsed = SyntaxError | Null | Data snapshot

type_synonym json_parse = "string \<Rightarrow> parsed"
type_synonym json_stringify = "snapshot \<Rightarrow> string"

text \<open>Line 79: \<^verbatim>\<open>{ professionals, patients, receipts, expenses, products, dailyConfigs, serviceTypes }\<close>.\<close>

definition snapshot_of :: "state \<Rightarrow> snapshot" where
  "snapshot_of st =
     \<lparr>d_professionals = Some (professionals st), d_patients = Some (patients st),
      d_receipts = Some (receipts st), d_expenses = Some (expenses st),
      d_products = Some (products st), d_dailyConfigs = Some (dailyConfigs st),
      d_serviceTypes = Some (serviceTypes st)\<rparr>"

text \<open>\<^verbatim>\<open>if (data.x) setX(data.x)\<close> keeps the current value when the property is missing.\<close>

definition ifPresent :: "'a option \<Rightarrow> 'a \<Rightarrow> 'a" where
  "ifPresent v cur = (case v of Some x \<Rightarrow> x | None \<Rightarrow> cur)"

text \<open>\<^verbatim>\<open>data.x || []\<close>.\<close>

definition orEmpty :: "'a list option \<Rightarrow> 'a list" where
  "orEmpty v = (case v of Some xs \<Rightarrow> xs | None \<Rightarrow> [])"

text \<open>
  The load effect (lines 57-74), run once after the first render. \<open>saved\<close> is
  \<^verbatim>\<open>localStorage.getItem(STORAGE_KEY)\<close>: \<open>None\<close> for \<^verbatim>\<open>null\<close>; the empty string is
  falsy as well. Both exceptions are caught by the one \<^verbatim>\<open>catch\<close>, which logs.
\<close>

definition load :: "json_parse \<Rightarrow> string option \<Rightarrow> state \<Rightarrow> state \<times> effect list" where
  "load parse saved st =
     (let (st1, out) =
        (case saved of
           None \<Rightarrow> (st, [])
         | Some s \<Rightarrow>
             if s = [] then (st, [])
             else (case parse s of
                     SyntaxError \<Rightarrow> (st, [ConsoleError])
                   | Null \<Rightarrow> (st, [ConsoleError])
                   | Data d \<Rightarrow>
                       (st\<lparr>professionals := ifPresent (d_professionals d) (professionals st),
                           patients := ifPresent (d_patients d) (patients st),
                           receipts := ifPresent (d_receipts d) (receipts st),
                           expenses := ifPresent (d_expenses d) (expenses st),
                           products := ifPresent (d_products d) (products st),
                           dailyConfigs := ifPresent (d_dailyConfigs d) (dailyConfigs st),
                           serviceTypes := ifPresent (d_serviceTypes d) (serviceTypes st)\<rparr>, [])))
      in (st1\<lparr>isLoaded := True\<rparr>, out))"

text \<open>
  The save effect (lines 77-82): the object handed to \<^verbatim>\<open>JSON.stringify\<close> and
  \<^verbatim>\<open>localStorage.setItem\<close>, or \<open>None\<close> when the guard keeps the effect from writing.
\<close>

definition saveEffect :: "state \<Rightarrow> snapshot option" where
  "saveEffect st = (if isLoaded st then Some (snapshot_of st) else None)"

text \<open>The storage slot after the save effect has run on \<open>st\<close>.\<close>

definition save :: "json_stringify \<Rightarrow> state \<Rightarrow> string option \<Rightarrow> string option" where
  "save stringify st slot =
     (case saveEffect st of None \<Rightarrow> slot | Some d \<Rightarrow> Some (stringify d))"

text \<open>
  \<^verbatim>\<open>importData\<close> (lines 96-118), from the moment the file has been read: \<open>content\<close>
  is the file's content, \<open>confirmed\<close> the answer to \<^verbatim>\<open>confirm\<close>.
\<close>

definition importData :: "json_parse \<Rightarrow> string \<Rightarrow> bool \<Rightarrow> state \<Rightarrow> state \<times> effect list" where
  "importData parse content confirmed st =
     (case parse content of
        SyntaxError \<Rightarrow> (st, [Alert ErroAoImportar])
      | Null \<Rightarrow> if confirmed then (st, [Alert ErroAoImportar]) else (st, [])
      | Data d \<Rightarrow>
          if confirmed
          then (st\<lparr>professionals := orEmpty (d_professionals d),
                   patients := orEmpty (d_patients d),
                   receipts := orEmpty (d_receipts d),
                   expenses := orEmpty (d_expenses d),
                   products := orEmpty (d_products d),
                   dailyConfigs := orEmpty (d_dailyConfigs d),
                   serviceTypes := ifPresent (d_serviceTypes d) (serviceTypes st)\<rparr>,
                [Alert ImportadoComSucesso])
          else (st, []))"


subsection \<open>The two other revisions of the component\<close>

text \<open>
  The revision with storage key \<^verbatim>\<open>centroMedicoCamocim_v100\<close> that has no
  \<^verbatim>\<open>isLoaded\<close> state (src/unnamed/part_000). Its load effect (lines 40-54) uses
  \<^verbatim>\<open>data.x || []\<close>; its save effect (lines 56-59) has no guard. The field
  \<open>isLoaded\<close> of the model's state is not touched by this revision.
\<close>

definition load_part000 :: "json_parse \<Rightarrow> string option \<Rightarrow> state \<Rightarrow> state \<times> effect list" where
  "load_part000 parse saved st =
     (case saved of
        None \<Rightarrow> (st, [])
      | Some s \<Rightarrow>
          if s = [] then (st, [])
          else (case parse s of
                  SyntaxError \<Rightarrow> (st, [ConsoleError])
                | Null \<Rightarrow> (st, [ConsoleError])
                | Data d \<Rightarrow>
                    (st\<lparr>professionals := orEmpty (d_professionals d),
                        patients := orEmpty (d_patients d),
                        receipts := orEmpty (d_receipts d),
                        expenses := orEmpty (d_expenses d),
                        products := orEmpty (d_products d),
                        dailyConfigs := orEmpty (d_dailyConfigs d),
                        serviceTypes := ifPresent (d_serviceTypes d) (serviceTypes st)\<rparr>, [])))"

definition saveEffect_part000 :: "state \<Rightarrow> snapshot option" where
  "saveEffect_part000 st = Some (snapshot_of st)"

text \<open>
  The revision with storage key \<^verbatim>\<open>centro_medico_v102_stable\<close>
  (src/unnamed/part_001, lines 40-55): four collections, each taken only when
  \<^verbatim>\<open>Array.isArray\<close> holds, and \<^verbatim>\<open>setIsLoaded(true)\<close> in a \<^verbatim>\<open>finally\<close> block.
\<close>

definition load_part001 :: "json_parse \<Rightarrow> string option \<Rightarrow> state \<Rightarrow> state \<times> effect list" where
  "load_part001 parse saved st =
     (let (st1, out) =
        (case saved of
           None \<Rightarrow> (st, [])
         | Some s \<Rightarrow>
             if s = [] then (st, [])
             else (case parse s of
                     SyntaxError \<Rightarrow> (st, [ConsoleError])
                   | Null \<Rightarrow> (st, [ConsoleError])
                   | Data d \<Rightarrow>
                       (st\<lparr>professionals := ifPresent (d_professionals d) (professionals st),
                           receipts := ifPresent (d_receipts d) (receipts st),
                           expenses := ifPresent (d_expenses d) (expenses st),
                           products := ifPresent (d_products d) (products st)\<rparr>, [])))
      in (st1\<lparr>isLoaded := True\<rparr>, out))"

subsection \<open>Mounting the component\<close>

text \<open>
  React renders the component with the initial state and then runs the effects
  of that render in source order; each effect sees the state of the render it
  belongs to. A state setter called inside an effect does not change that
  state: it schedules the next render, after which the effects whose
  dependencies changed run again. The load effect has no dependencies and runs
  once. \<open>startup\<close> returns the state of the last render and the objects written
  to the storage slot, in order.
\<close>

definition writes :: "snapshot option \<Rightarrow> snapshot list" where
  "writes w = (case w of None \<Rightarrow> [] | Some d \<Rightarrow> [d])"

definition startup :: "json_parse \<Rightarrow> string \<Rightarrow> string option \<Rightarrow> state \<times> snapshot list" where
  "startup parse today saved =
     (let st0 = initialState today;
          st1 = fst (load parse saved st0)
      in (st1, writes (saveEffect st0) @ writes (saveEffect st1)))"

text \<open>
  In the unguarded revision a second render happens only when the load effect
  called a setter, that is when the stored text parsed to an object.
\<close>

definition startup_part000 :: "json_parse \<Rightarrow> string \<Rightarrow> string option \<Rightarrow> state \<times> snapshot list" where
  "startup_part000 parse today saved =
     (let st0 = initialState today;
          st1 = fst (load_part000 parse saved st0);
          rerender = (case saved of
                        None \<Rightarrow> False
                      | Some s \<Rightarrow> s \<noteq> [] \<and> (case parse s of Data d \<Rightarrow> True | _ \<Rightarrow> False))
      in (st1, writes (saveEffect_part000 st0) @
               (if rerender then writes (saveEffect_part000 st1) else [])))"

section \<open>Ledger aggregation\<close>

text \<open>
  \<^verbatim>\<open>a.localeCompare(b)\<close> as a three-way comparison. On the timestamps of this
  program (digits with \<^verbatim>\<open>-\<close>, \<^verbatim>\<open>T\<close> and \<^verbatim>\<open>:\<close> at fixed places) the locale's collation
  and the lexicographic order of the characters agree; the model uses the
  latter.
\<close>

definition localeCompare :: "string \<Rightarrow> string \<Rightarrow> int" where
  "localeCompare a b = (if a < b then - 1 else if a = b then 0 else 1)"

text \<open>
  \<^verbatim>\<open>Array.prototype.sort(cmp)\<close>. ECMAScript requires the sort to be stable, which
  fixes its result for a consistent comparator: \<open>x\<close> goes before \<open>y\<close> when
  \<open>cmp x y < 0\<close>, after it when \<open>cmp x y > 0\<close>, and elements that compare equal
  keep their order. Insertion from the right computes that list.
\<close>

fun insertBy :: "('a \<Rightarrow> 'a \<Rightarrow> int) \<Rightarrow> 'a \<Rightarrow> 'a list \<Rightarrow> 'a list" where
  "insertBy cmp x [] = [x]"
| "insertBy cmp x (y # ys) = (if cmp x y \<le> 0 then x # y # ys else y # insertBy cmp x ys)"

definition sortBy :: "('a \<Rightarrow> 'a \<Rightarrow> int) \<Rightarrow> 'a list \<Rightarrow> 'a list" where
  "sortBy cmp xs = foldr (insertBy cmp) xs []"



text \<open>
  The same memo in the revisions with key \<^verbatim>\<open>centroMedicoCamocim_v100\<close>
  (Dashboard.tsx, lines 595-598; part_000, lines 62-65):
  \<^verbatim>\<open>receipts.filter(r => r.date.startsWith(currentDate)).sort(...)\<close>.
\<close>

definition dailyReceipts_startsWith :: "receipt list \<Rightarrow> string \<Rightarrow> receipt list" where
  "dailyReceipts_startsWith rs cur =
     sortBy (\<lambda>a b. localeCompare (date b) (date a))
       (filter (\<lambda>r. prefix cur (date r)) rs)"

definition dailyExpenses_startsWith :: "expense list \<Rightarrow> string \<Rightarrow> expense list" where
  "dailyExpenses_startsWith es cur = filter (\<lambda>e. prefix cur (e_date e)) es"



text \<open>
  \<^verbatim>\<open>dailyAccountTotals\<close> (Dashboard.tsx, lines 612-619). The object literal is an
  association list in the order of its keys; \<^verbatim>\<open>acc.hasOwnProperty(method)\<close> is
  a successful lookup.
\<close>

definition emptyAccount :: "(string \<times> rat) list" where
  "emptyAccount = [(''pix'', 0), (''dinheiro'', 0), (''cartao'', 0), (''unimed'', 0)]"

definition addToAccount :: "(string \<times> rat) list \<Rightarrow> receipt \<Rightarrow> (string \<times> rat) list" where
  "addToAccount acc r =
     (case map_of acc (paymentMethod r) of
        None \<Rightarrow> acc
      | Some v \<Rightarrow> AList.update (paymentMethod r) (v + grossValue r) acc)"



subsection \<open>Calendar fields of a timestamp\<close>














subsection \<open>Breakdown for the selected professional\<close>

record profDetails =
  prof :: professional
  profRecs :: "receipt list"
  paymentTotals :: "(string \<times> rat) list"
  bVal :: rat
  pVal :: rat
  cVal :: rat


text \<open>
  The same memo in src/unnamed/part_000 (lines 190-200) lacks the line
  \<^verbatim>\<open>if (!prof) return null\<close>: reading \<^verbatim>\<open>prof.id\<close> of \<^verbatim>\<open>undefined\<close> throws.
\<close>

datatype exception = TypeError

definition selectedProfDetails_part000 :: "state \<Rightarrow> exception + profDetails option" where
  "selectedProfDetails_part000 st =
     (case selectedProfIndex st of
        None \<Rightarrow> Inr None
      | Some i \<Rightarrow>
          if \<not> i < length (professionals st) then Inl TypeError
          else
            let p = professionals st ! i;
                recs = filter (\<lambda>r. professionalId r = p_id p)
                         (dailyReceipts_startsWith (receipts st) (currentDate st))
            in Inr (Some \<lparr>prof = p, profRecs = recs,
                      paymentTotals = foldl addToAccount emptyAccount recs,
                      bVal = foldl (\<lambda>s r. s + grossValue r) 0 recs,
                      pVal = foldl (\<lambda>s r. s + professionalValue r) 0 recs,
                      cVal = foldl (\<lambda>s r. s + netClinic r) 0 recs\<rparr>))"

section \<open>Sequences of operations\<close>





section \<open>Predicates of the specification\<close>


section \<open>Example data\<close>

text \<open>
  A roster with a 30 per cent professional and one registered without
  commission (the sentinel 100), and a loaded state consulting 2024-05-01.
\<close>

definition ex_roster :: "professional list" where
  "ex_roster =
     [\<lparr>p_id = ''p30'', p_name = ''Ana'', p_specialty = ''Clinica'', p_phone = ''88'',
       percentage = 30, p_createdAt = ''2024-01-01T00:00:00.000Z''\<rparr>,
      \<lparr>p_id = ''p100'', p_name = ''Bruno'', p_specialty = ''Cirurgia'', p_phone = ''99'',
       percentage = 100, p_createdAt = ''2024-01-02T00:00:00.000Z''\<rparr>]"

definition ex_state :: state where
  "ex_state = (initialState ''2024-05-01'')\<lparr>isLoaded := True, professionals := ex_roster\<rparr>"

definition ex_form :: "nat \<Rightarrow> rat \<Rightarrow> string \<Rightarrow> receiptForm" where
  "ex_form i g m =
     \<lparr>f_professional = Some i, f_value = Some g, f_type = ''consulta'', f_method = m\<rparr>"

definition ex_receipt :: receipt where
  "ex_receipt =
     \<lparr>r_id = ''r1'', grossValue = 200, netClinic = 140, professionalValue = 60,
      professionalId = ''p30'', professionalName = ''Ana'', serviceType = ''consulta'',
      paymentMethod = ''pix'', date = ''2024-05-01T10:30:00''\<rparr>"

definition ex_saved_state :: state where
  "ex_saved_state = ex_state\<lparr>receipts := [ex_receipt]\<rparr>"


text \<open>The object \<^verbatim>\<open>{}\<close>: every property is missing.\<close>

definition ex_empty_object :: snapshot where
  "ex_empty_object =
     \<lparr>d_professionals = None, d_patients = None, d_receipts = None, d_expenses = None,
      d_products = None, d_dailyConfigs = None, d_serviceTypes = None\<rparr>"

text \<open>
  Stand-ins for the platform's \<^verbatim>\<open>JSON.parse\<close> and \<^verbatim>\<open>JSON.stringify\<close> on the few
  texts the examples use; \<open>''<saved>''\<close> abbreviates the serialisation of
  \<open>ex_saved_state\<close>, \<open>''<tampered>''\<close> a file holding \<open>ex_unbalanced\<close>.
\<close>

definition ex_parse :: json_parse where
  "ex_parse s =
     (if s = ''null'' then Null
      else if s = ''{}'' then Data ex_empty_object
      else if s = ''<saved>'' then Data (snapshot_of ex_saved_state)
      else SyntaxError)"

definition ex_stringify :: json_stringify where
  "ex_stringify d = (if d = ex_empty_object then ''{}'' else ''<saved>'')"







text \<open>
  The roster of two professionals with one receipt of the second one, and the
  professional at index \<open>i\<close> selected.
\<close>

definition ex_receipt_bruno :: receipt where
  "ex_receipt_bruno =
     \<lparr>r_id = ''r2'', grossValue = 500, netClinic = 500, professionalValue = 0,
      professionalId = ''p100'', professionalName = ''Bruno'', serviceType = ''cirurgia'',
      paymentMethod = ''dinheiro'', date = ''2024-05-01T11:00:05''\<rparr>"

definition ex_selected :: "nat \<Rightarrow> state" where
  "ex_selected i = ex_state\<lparr>receipts := [ex_receipt_bruno], selectedProfIndex := Some i\<rparr>"

section \<open>Commission split\<close>

text \<open>
  C1. A validated submission (the selected index denotes a professional of the
  roster, the amount parsed to a number \<open>g\<close>) appends exactly one receipt and
  shows nothing to the user, in \<^verbatim>\<open>addReceipt\<close> and in \<^verbatim>\<open>handleAddReceipt\<close> alike.
  With \<open>p\<close> the professional's percentage, that receipt has gross value \<open>g\<close>;
  if \<open>p = 100\<close> its professional value is 0 and its net-to-clinic value is \<open>g\<close>;
  otherwise its professional value is \<open>g * (p / 100)\<close> and its net-to-clinic
  value is \<open>g\<close> minus the professional value. The range 0..100 of \<open>p\<close> is not
  needed. The witness runs the two scenarios of the specification: 30 per cent
  of 200.00 gives 60.00 and 140.00; the sentinel 100 on 500.00 gives 0.00 and
  500.00.
\<close>

theorem addReceipt_commission_split:
  assumes "f_professional form = Some i" and "i < length (professionals st)"
    and "f_value form = Some g" and "percentage (professionals st ! i) = p"
  shows "\<exists>r. addReceipt form newId now st = (st\<lparr>receipts := receipts st @ [r]\<rparr>, [])
           \<and> handleAddReceipt form newId now st = (st\<lparr>receipts := receipts st @ [r]\<rparr>, [])
           \<and> grossValue r = g
           \<and> professionalValue r = (if p = 100 then 0 else g * (of_int p / 100))
           \<and> netClinic r = (if p = 100 then g else g - professionalValue r)"
proof -
  define r where "r = \<lparr>r_id = newId, grossValue = g, netClinic = g - profValue g p,
      professionalValue = profValue g p, professionalId = p_id (professionals st ! i),
      professionalName = p_name (professionals st ! i), serviceType = f_type form,
      paymentMethod = f_method form, date = localFullDate (currentDate st) now\<rparr>"
  have "addReceipt form newId now st = (st\<lparr>receipts := receipts st @ [r]\<rparr>, [])"
    using assms by (simp add: addReceipt_def r_def Let_def)
  moreover have "handleAddReceipt form newId now st = (st\<lparr>receipts := receipts st @ [r]\<rparr>, [])"
    using assms by (simp add: handleAddReceipt_def r_def Let_def)
  moreover have "grossValue r = g"
    by (simp add: r_def)
  moreover have "professionalValue r = (if p = 100 then 0 else g * (of_int p / 100))"
    by (simp add: r_def profValue_def)
  moreover have "netClinic r = (if p = 100 then g else g - professionalValue r)"
    by (simp add: r_def profValue_def)
  ultimately show ?thesis
    by blast
qed

theorem addReceipt_commission_split_witness:
  "professionalValue (last (receipts (fst (addReceipt (ex_form 0 200 ''pix'') ''r1'' (10, 30, 0) ex_state)))) = 60
   \<and> netClinic (last (receipts (fst (addReceipt (ex_form 0 200 ''pix'') ''r1'' (10, 30, 0) ex_state)))) = 140
   \<and> professionalValue (last (receipts (fst (addReceipt (ex_form 1 500 ''pix'') ''r2'' (10, 31, 0) ex_state)))) = 0
   \<and> netClinic (last (receipts (fst (addReceipt (ex_form 1 500 ''pix'') ''r2'' (10, 31, 0) ex_state)))) = 500"
  using addReceipt_commission_split [of "ex_form 0 200 ''pix''" 0 ex_state 200 30 "''r1''" "(10, 30, 0)"]
    addReceipt_commission_split [of "ex_form 1 500 ''pix''" 1 ex_state 500 100 "''r2''" "(10, 31, 0)"]
  by (auto simp: ex_form_def ex_state_def ex_roster_def initialState_def)

section \<open>The accounting identity along a session\<close>









section \<open>Persistence\<close>

lemma load_None: "load parse None st = (st\<lparr>isLoaded := True\<rparr>, [])"
  by (simp add: load_def)

lemma load_SyntaxError:
  "parse s = SyntaxError \<Longrightarrow>
     load parse (Some s) st = (st\<lparr>isLoaded := True\<rparr>, if s = [] then [] else [ConsoleError])"
  by (simp add: load_def)

lemma load_Data:
  "parse s = Data d \<Longrightarrow> s \<noteq> [] \<Longrightarrow>
     load parse (Some s) st =
       (st\<lparr>professionals := ifPresent (d_professionals d) (professionals st),
           patients := ifPresent (d_patients d) (patients st),
           receipts := ifPresent (d_receipts d) (receipts st),
           expenses := ifPresent (d_expenses d) (expenses st),
           products := ifPresent (d_products d) (products st),
           dailyConfigs := ifPresent (d_dailyConfigs d) (dailyConfigs st),
           serviceTypes := ifPresent (d_serviceTypes d) (serviceTypes st),
           isLoaded := True\<rparr>, [])"
  by (simp add: load_def)

lemma load_part001_SyntaxError:
  "parse s = SyntaxError \<Longrightarrow>
     load_part001 parse (Some s) st = (st\<lparr>isLoaded := True\<rparr>, if s = [] then [] else [ConsoleError])"
  by (simp add: load_part001_def)

lemma load_part001_Data:
  "parse s = Data d \<Longrightarrow> s \<noteq> [] \<Longrightarrow>
     load_part001 parse (Some s) st =
       (st\<lparr>professionals := ifPresent (d_professionals d) (professionals st),
           receipts := ifPresent (d_receipts d) (receipts st),
           expenses := ifPresent (d_expenses d) (expenses st),
           products := ifPresent (d_products d) (products st),
           isLoaded := True\<rparr>, [])"
  by (simp add: load_part001_def)

text \<open>
  The guarded revisions write once while mounting, and what they write is the
  state after the load effect.
\<close>

lemma startup_writes_loaded_state:
  "snd (startup parse today saved) = [snapshot_of (fst (startup parse today saved))]"
  by (simp add: startup_def Let_def saveEffect_def writes_def initialState_def load_def
        split: option.splits parsed.splits prod.splits)

text \<open>
  The unguarded revision writes at least once while mounting, whatever is
  stored, and the first thing it writes is the initial state.
\<close>

lemma startup_part000_first_write:
  "hd (snd (startup_part000 parse today saved)) = snapshot_of (initialState today)"
  by (simp add: startup_part000_def saveEffect_part000_def writes_def Let_def)

text \<open>
  C3. Nothing may be written to the storage slot from the state that precedes
  the load. The guarded revisions keep to this (lemma
  \<open>startup_writes_loaded_state\<close>); the unguarded revision in
  src/unnamed/part_000 does not: mounted on a slot that holds a saved roster
  and a receipt, its save effect first writes the initial state, with its
  empty collections, over the stored data, and only the effect of the second
  render writes the loaded data back.
\<close>

theorem startup_part000_writes_initial_state:
  "ex_parse ''<saved>'' = Data (snapshot_of ex_saved_state)
   \<and> snd (startup_part000 ex_parse ''2024-05-01'' (Some ''<saved>''))
       = [snapshot_of (initialState ''2024-05-01''), snapshot_of ex_saved_state]
   \<and> d_professionals (snapshot_of (initialState ''2024-05-01'')) = Some []
   \<and> d_professionals (snapshot_of ex_saved_state) = Some ex_roster"
  by (simp add: startup_part000_def load_part000_def ex_parse_def saveEffect_part000_def
        writes_def snapshot_of_def ex_saved_state_def ex_state_def initialState_def
        orEmpty_def ifPresent_def Let_def)

text \<open>
  C4. Let \<open>st\<close> be a loaded state (the save effect is guarded by \<open>isLoaded\<close>)
  whose snapshot the platform's JSON functions carry through unchanged:
  \<^verbatim>\<open>JSON.stringify\<close> yields a non-empty text that \<^verbatim>\<open>JSON.parse\<close> reads back as the
  same object. Then \<open>save\<close> overwrites the slot with that text, and mounting
  on the slot reconstructs \<open>st\<close>:
  all seven collections and \<open>isLoaded\<close> are those of \<open>st\<close>; the consulted day and
  the selection, which are not persisted, are those of a fresh start.
\<close>

theorem load_save_roundtrip:
  assumes "isLoaded st"
    and "stringify (snapshot_of st) \<noteq> []"
    and "parse (stringify (snapshot_of st)) = Data (snapshot_of st)"
  shows "save stringify st slot = Some (stringify (snapshot_of st))
       \<and> fst (load parse (save stringify st slot) (initialState today))
           = st\<lparr>currentDate := today, selectedProfIndex := None\<rparr>"
  using assms
  by (simp add: save_def saveEffect_def load_Data)
     (simp add: snapshot_of_def ifPresent_def initialState_def)

theorem load_save_roundtrip_witness:
  "isLoaded ex_saved_state
   \<and> ex_stringify (snapshot_of ex_saved_state) = ''<saved>''
   \<and> ex_parse ''<saved>'' = Data (snapshot_of ex_saved_state)
   \<and> save ex_stringify ex_saved_state None = Some ''<saved>''
   \<and> fst (load ex_parse (save ex_stringify ex_saved_state None) (initialState ''2024-05-01''))
       = ex_saved_state"
proof -
  have l: "isLoaded ex_saved_state"
    by (simp add: ex_saved_state_def ex_state_def)
  have s: "ex_stringify (snapshot_of ex_saved_state) = ''<saved>''"
    by (simp add: ex_stringify_def snapshot_of_def ex_empty_object_def)
  have p: "ex_parse ''<saved>'' = Data (snapshot_of ex_saved_state)"
    by (simp add: ex_parse_def)
  have e: "ex_saved_state\<lparr>currentDate := ''2024-05-01'', selectedProfIndex := None\<rparr> = ex_saved_state"
    by (simp add: ex_saved_state_def ex_state_def initialState_def)
  have r: "save ex_stringify ex_saved_state None = Some (ex_stringify (snapshot_of ex_saved_state))
      \<and> fst (load ex_parse (save ex_stringify ex_saved_state None) (initialState ''2024-05-01''))
          = ex_saved_state\<lparr>currentDate := ''2024-05-01'', selectedProfIndex := None\<rparr>"
    by (rule load_save_roundtrip) (simp_all add: l s p)
  have r1: "save ex_stringify ex_saved_state None = Some ''<saved>''"
    using r [THEN conjunct1] unfolding s .
  have r2: "fst (load ex_parse (save ex_stringify ex_saved_state None) (initialState ''2024-05-01''))
      = ex_saved_state"
    using r [THEN conjunct2] unfolding e .
  show ?thesis
    by (intro conjI) (rule l s p r1 r2)+
qed

text \<open>
  C5. When the text of the import file fails to parse, \<^verbatim>\<open>importData\<close> shows the
  alert "Erro ao importar: Arquivo invalido." and returns the state it was
  given, whole, whatever the user would have answered to the confirmation.
\<close>

theorem importData_parse_failure_atomic:
  assumes "parse content = SyntaxError"
  shows "importData parse content confirmed st = (st, [Alert ErroAoImportar])"
  using assms by (simp add: importData_def)

theorem importData_parse_failure_atomic_witness:
  "ex_parse ''not json'' = SyntaxError
   \<and> importData ex_parse ''not json'' True ex_saved_state = (ex_saved_state, [Alert ErroAoImportar])"
  using importData_parse_failure_atomic [of ex_parse "''not json''" True ex_saved_state]
  by (simp add: ex_parse_def)

text \<open>
  A file holding \<^verbatim>\<open>null\<close> parses, but reading its first property throws inside
  the same \<^verbatim>\<open>try\<close> before any setter has run: the state is kept whole as well.
\<close>

lemma importData_null_atomic:
  "parse content = Null \<Longrightarrow> fst (importData parse content confirmed st) = st"
  by (simp add: importData_def)

text \<open>
  C6, as the specification states it, fails for one field: a parseable object
  without \<^verbatim>\<open>serviceTypes\<close> leaves the service types at the four defaults of
  \<^verbatim>\<open>useState\<close>, not at an empty collection.
\<close>

theorem load_missing_serviceTypes_counterexample:
  "ex_parse ''{}'' = Data ex_empty_object
   \<and> d_serviceTypes ex_empty_object = None
   \<and> serviceTypes (fst (load ex_parse (Some ''{}'') (initialState ''2024-05-01''))) = defaultServiceTypes
   \<and> defaultServiceTypes \<noteq> []"
  by (simp add: ex_parse_def ex_empty_object_def load_def ifPresent_def initialState_def
        defaultServiceTypes_def)

text \<open>
  C6, amended. When the stored text fails to parse, the load effect (of
  Dashboard.tsx and of part_001 alike) catches the failure: the component ends
  in the initial state with \<open>isLoaded\<close> set, which is the state it reaches when
  nothing is stored; the failure is logged and no alert is shown. When the
  text parses to an object, no property is required: a missing one leaves its
  collection at the initial value, which is the empty list for professionals,
  patients, receipts, expenses, products and daily configurations, and the
  four default service types for \<^verbatim>\<open>serviceTypes\<close>; nothing is logged or shown.
\<close>

theorem load_tolerates_bad_blob:
  "(parse s = SyntaxError \<longrightarrow>
      load parse (Some s) (initialState today)
        = ((initialState today)\<lparr>isLoaded := True\<rparr>, if s = [] then [] else [ConsoleError])
      \<and> load_part001 parse (Some s) (initialState today)
        = ((initialState today)\<lparr>isLoaded := True\<rparr>, if s = [] then [] else [ConsoleError])
      \<and> fst (load parse (Some s) (initialState today)) = fst (load parse None (initialState today)))
   \<and> (parse s = Data d \<and> s \<noteq> [] \<longrightarrow>
        load parse (Some s) (initialState today)
          = ((initialState today)
               \<lparr>professionals := orEmpty (d_professionals d),
                patients := orEmpty (d_patients d),
                receipts := orEmpty (d_receipts d),
                expenses := orEmpty (d_expenses d),
                products := orEmpty (d_products d),
                dailyConfigs := orEmpty (d_dailyConfigs d),
                serviceTypes := ifPresent (d_serviceTypes d) defaultServiceTypes,
                isLoaded := True\<rparr>, [])
        \<and> load_part001 parse (Some s) (initialState today)
          = ((initialState today)
               \<lparr>professionals := orEmpty (d_professionals d),
                receipts := orEmpty (d_receipts d),
                expenses := orEmpty (d_expenses d),
                products := orEmpty (d_products d),
                isLoaded := True\<rparr>, []))"
  by (simp add: load_SyntaxError load_part001_SyntaxError load_None load_Data load_part001_Data)
     (simp add: initialState_def ifPresent_def orEmpty_def split: option.splits)

theorem load_tolerates_bad_blob_witness:
  "ex_parse ''not json'' = SyntaxError
   \<and> load ex_parse (Some ''not json'') (initialState ''2024-05-01'')
       = ((initialState ''2024-05-01'')\<lparr>isLoaded := True\<rparr>, [ConsoleError])
   \<and> ex_parse ''{}'' = Data ex_empty_object
   \<and> load ex_parse (Some ''{}'') (initialState ''2024-05-01'')
       = ((initialState ''2024-05-01'')\<lparr>isLoaded := True\<rparr>, [])"
  using load_tolerates_bad_blob [of ex_parse "''not json''" "''2024-05-01''" ex_empty_object]
    load_tolerates_bad_blob [of ex_parse "''{}''" "''2024-05-01''" ex_empty_object]
  by (simp add: ex_parse_def ex_empty_object_def orEmpty_def ifPresent_def initialState_def)

section \<open>Totals by payment method\<close>











section \<open>Printing and reading timestamps\<close>



























section \<open>Receipts of the consulted day\<close>












section \<open>Receipts of the consulted month\<close>







section \<open>Removing a professional\<close>


text \<open>
  In the revision of src/unnamed/part_000 the same selection raises a
  \<^verbatim>\<open>TypeError\<close> while rendering.
\<close>

lemma selectedProfDetails_part000_raises:
  "selectedProfDetails_part000 (removeProfessional ''p100'' True (ex_selected 1)) = Inl TypeError"
  by (simp add: selectedProfDetails_part000_def removeProfessional_def ex_selected_def
        ex_state_def ex_roster_def initialState_def)




end
